theory Spec2Isabelle
  imports Main "HOL-Library.Sublist"
begin

section \<open>JavaScript strings\<close>

text \<open>
  A JavaScript string is modelled as a \<^typ>\<open>string\<close>, one \<^typ>\<open>char\<close> per code unit.
  Case conversion is the ASCII part of \<^verbatim>\<open>toLowerCase\<close> / \<^verbatim>\<open>toUpperCase\<close>: the letters
  A-Z and a-z are mapped, every other code unit is left alone. Registration marks, makes,
  models and dates of the vehicle file are ASCII text; the Unicode special cases of the two
  methods lie outside this model.
\<close>

definition isUpperCase :: "char \<Rightarrow> bool" where
  "isUpperCase c \<longleftrightarrow> 65 \<le> (of_char c :: nat) \<and> (of_char c :: nat) \<le> 90"

definition isLowerCase :: "char \<Rightarrow> bool" where
  "isLowerCase c \<longleftrightarrow> 97 \<le> (of_char c :: nat) \<and> (of_char c :: nat) \<le> 122"

definition lowerChar :: "char \<Rightarrow> char" where
  "lowerChar c = (if isUpperCase c then char_of ((of_char c :: nat) + 32) else c)"

definition upperChar :: "char \<Rightarrow> char" where
  "upperChar c = (if isLowerCase c then char_of ((of_char c :: nat) - 32) else c)"

definition toLowerCase :: "string \<Rightarrow> string" where
  "toLowerCase s = map lowerChar s"

definition toUpperCase :: "string \<Rightarrow> string" where
  "toUpperCase s = map upperChar s"

text \<open>\<^verbatim>\<open>s.includes(q)\<close>: \<open>q\<close> occurs in \<open>s\<close> as a contiguous run of code units.\<close>

fun includes_str :: "string \<Rightarrow> string \<Rightarrow> bool" where
  "includes_str [] q = (q = [])"
| "includes_str (c # cs) q = (prefix q (c # cs) \<or> includes_str cs q)"

text \<open>
  White space as \<^verbatim>\<open>trim\<close>, \<^verbatim>\<open>Number\<close> and \<^verbatim>\<open>parseInt\<close> skip it: tab, line feed,
  vertical tab, form feed, carriage return and space (the ASCII members of the class).
\<close>

definition isWhiteSpace :: "char \<Rightarrow> bool" where
  "isWhiteSpace c \<longleftrightarrow> c \<in> set [CHR 0x09, CHR 0x0A, CHR 0x0B, CHR 0x0C, CHR 0x0D, CHR '' '']"

definition trimStart :: "string \<Rightarrow> string" where
  "trimStart s = dropWhile isWhiteSpace s"

definition trimEnd :: "string \<Rightarrow> string" where
  "trimEnd s = rev (dropWhile isWhiteSpace (rev s))"

definition trim :: "string \<Rightarrow> string" where
  "trim s = trimEnd (trimStart s)"

section \<open>JavaScript numbers read from strings\<close>

text \<open>
  Prices, mileages and parsed queries are integers, modelled as \<^typ>\<open>int\<close>; this is exact
  for the integers a double represents exactly (below \<open>2^53\<close> in absolute value).
  \<^verbatim>\<open>NaN\<close> is the value \<open>None\<close>.
\<close>

definition isDigit :: "char \<Rightarrow> bool" where
  "isDigit c \<longleftrightarrow> 48 \<le> (of_char c :: nat) \<and> (of_char c :: nat) \<le> 57"

text \<open>The value of a code unit as a digit of radix up to 16, if it is one.\<close>

definition digitOf :: "char \<Rightarrow> int option" where
  "digitOf c =
     (if isDigit c then Some (of_char c - 48)
      else if 97 \<le> (of_char c :: nat) \<and> (of_char c :: nat) \<le> 102 then Some (of_char c - 87)
      else if 65 \<le> (of_char c :: nat) \<and> (of_char c :: nat) \<le> 70 then Some (of_char c - 55)
      else None)"

definition isRadixDigit :: "int \<Rightarrow> char \<Rightarrow> bool" where
  "isRadixDigit R c = (case digitOf c of Some d \<Rightarrow> d < R | None \<Rightarrow> False)"

definition mathInt :: "int \<Rightarrow> string \<Rightarrow> int" where
  "mathInt R Z = foldl (\<lambda>a c. a * R + (case digitOf c of Some d \<Rightarrow> d | None \<Rightarrow> 0)) 0 Z"

text \<open>
  \<^verbatim>\<open>parseInt(string)\<close> with no radix argument: leading white space is skipped, one sign
  is read, a \<^verbatim>\<open>0x\<close> prefix selects radix 16 (radix 10 otherwise), and the longest run of
  digits of that radix is the number; whatever follows is ignored. No digit at all gives
  \<^verbatim>\<open>NaN\<close>.
\<close>

definition parseInt :: "string \<Rightarrow> int option" where
  "parseInt inputString =
     (let S = trimStart inputString;
          sign = (case S of c # _ \<Rightarrow> if c = CHR ''-'' then - 1 else 1 | [] \<Rightarrow> (1::int));
          S1 = (case S of c # cs \<Rightarrow> if c = CHR ''+'' \<or> c = CHR ''-'' then cs else S | [] \<Rightarrow> S);
          hex = (prefix ''0x'' S1 \<or> prefix ''0X'' S1);
          R = (if hex then 16 else 10);
          S2 = (if hex then drop 2 S1 else S1);
          Z = takeWhile (isRadixDigit R) S2
      in if Z = [] then None else Some (sign * mathInt R Z))"

text \<open>
  \<^verbatim>\<open>isNaN(string)\<close> converts with \<^verbatim>\<open>Number\<close>, which accepts (between optional white
  space) nothing at all, a signed decimal literal with optional fraction and exponent,
  \<^verbatim>\<open>Infinity\<close>, or an unsigned \<^verbatim>\<open>0x\<close>, \<^verbatim>\<open>0o\<close> or \<^verbatim>\<open>0b\<close> literal. The functions below
  recognise that grammar (StringNumericLiteral of the language standard).
\<close>

definition decimalDigits :: "string \<Rightarrow> bool" where
  "decimalDigits ds \<longleftrightarrow> ds \<noteq> [] \<and> list_all isDigit ds"

definition dropSign :: "string \<Rightarrow> string" where
  "dropSign s = (case s of c # cs \<Rightarrow> if c = CHR ''+'' \<or> c = CHR ''-'' then cs else s | [] \<Rightarrow> s)"

definition exponentPart :: "string \<Rightarrow> bool" where
  "exponentPart r =
     (case r of
        [] \<Rightarrow> False
      | c # r1 \<Rightarrow> (c = CHR ''e'' \<or> c = CHR ''E'') \<and> decimalDigits (dropSign r1))"

definition strUnsignedDecimalLiteral :: "string \<Rightarrow> bool" where
  "strUnsignedDecimalLiteral u =
     (u = ''Infinity'' \<or>
      (let ip = takeWhile isDigit u; r = dropWhile isDigit u in
       case r of
         [] \<Rightarrow> ip \<noteq> []
       | c # r1 \<Rightarrow>
           if c = CHR ''.''
           then (let fp = takeWhile isDigit r1; r2 = dropWhile isDigit r1 in
                 (ip \<noteq> [] \<or> fp \<noteq> []) \<and> (r2 = [] \<or> exponentPart r2))
           else ip \<noteq> [] \<and> exponentPart r))"

definition nonDecimalIntegerLiteral :: "string \<Rightarrow> bool" where
  "nonDecimalIntegerLiteral t =
     (case t of
        c0 # c1 # ds \<Rightarrow>
          c0 = CHR ''0'' \<and> ds \<noteq> [] \<and>
          (((c1 = CHR ''x'' \<or> c1 = CHR ''X'') \<and> list_all (isRadixDigit 16) ds) \<or>
           ((c1 = CHR ''o'' \<or> c1 = CHR ''O'') \<and> list_all (isRadixDigit 8) ds) \<or>
           ((c1 = CHR ''b'' \<or> c1 = CHR ''B'') \<and> list_all (isRadixDigit 2) ds))
      | _ \<Rightarrow> False)"

definition stringNumericLiteral :: "string \<Rightarrow> bool" where
  "stringNumericLiteral s =
     (let t = trim s in
      t = [] \<or> nonDecimalIntegerLiteral t \<or> strUnsignedDecimalLiteral (dropSign t))"

definition isNaN :: "string \<Rightarrow> bool" where
  "isNaN s \<longleftrightarrow> \<not> stringNumericLiteral s"

section \<open>Vehicles and the backing file\<close>

text \<open>One record of \<^verbatim>\<open>data.json\<close>, with the fields the server reads.\<close>

record vehicle =
  VRM :: string
  Make :: string
  Model :: string
  Variant :: string
  Colour :: string
  BodyType :: string
  Price :: int
  Mileage :: int
  DateOfRegistration :: string

text \<open>
  The file \<^verbatim>\<open>data.json\<close> is not part of the program text, so it is a parameter: it is
  missing (or unreadable), or it has a content that \<^verbatim>\<open>JSON.parse\<close> rejects or turns
  into an array of vehicles.
\<close>

datatype file_content = Malformed | Document "vehicle list"

datatype backing_file = Unreadable | Readable file_content

datatype exception = ReadError | SyntaxError | TypeError

definition readFileSync :: "backing_file \<Rightarrow> exception + file_content" where
  "readFileSync file = (case file of Unreadable \<Rightarrow> Inl ReadError | Readable text \<Rightarrow> Inr text)"

definition JSON_parse :: "file_content \<Rightarrow> exception + vehicle list" where
  "JSON_parse jsonData = (case jsonData of Malformed \<Rightarrow> Inl SyntaxError | Document vs \<Rightarrow> Inr vs)"

text \<open>\<^verbatim>\<open>getVehiclesData\<close>: the \<^verbatim>\<open>catch\<close> block logs the exception and returns \<^verbatim>\<open>[]\<close>.\<close>

definition getVehiclesData :: "backing_file \<Rightarrow> vehicle list" where
  "getVehiclesData file =
     (case readFileSync file of
        Inl e \<Rightarrow> []
      | Inr jsonData \<Rightarrow> (case JSON_parse jsonData of Inl e \<Rightarrow> [] | Inr vs \<Rightarrow> vs))"

section \<open>Request values\<close>

text \<open>
  What \<^verbatim>\<open>express.json()\<close> can put into \<^verbatim>\<open>req.body.query\<close>: a JSON value, or nothing
  (\<^verbatim>\<open>undefined\<close>, modelled as \<open>None\<close>). Numbers are the integer ones.
\<close>

datatype json =
    JNull
  | JBool bool
  | JNum int
  | JStr string
  | JArr "json list"
  | JObj "(string \<times> json) list"

text \<open>Truthiness, as \<^verbatim>\<open>!searchQuery\<close> tests it.\<close>

fun truthy :: "json option \<Rightarrow> bool" where
  "truthy None = False"
| "truthy (Some JNull) = False"
| "truthy (Some (JBool b)) = b"
| "truthy (Some (JNum n)) = (n \<noteq> 0)"
| "truthy (Some (JStr s)) = (s \<noteq> [])"
| "truthy (Some (JArr xs)) = True"
| "truthy (Some (JObj kvs)) = True"

function showDigits :: "int \<Rightarrow> string" where
  "showDigits n =
     (if n < 10 then [char_of (48 + n)]
      else showDigits (n div 10) @ [char_of (48 + n mod 10)])"
  by pat_completeness auto
termination
  by (relation "measure nat") auto

declare showDigits.simps [simp del]

definition numberToString :: "int \<Rightarrow> string" where
  "numberToString n = (if n < 0 then CHR ''-'' # showDigits (- n) else showDigits n)"

fun joinStrings :: "string list \<Rightarrow> string" where
  "joinStrings [] = []"
| "joinStrings [s] = s"
| "joinStrings (s # t # ss) = s @ '','' @ joinStrings (t # ss)"

fun collect :: "(exception + string) list \<Rightarrow> exception + string list" where
  "collect [] = Inr []"
| "collect (Inl e # rs) = Inl e"
| "collect (Inr s # rs) = (case collect rs of Inl e \<Rightarrow> Inl e | Inr ss \<Rightarrow> Inr (s # ss))"

text \<open>
  The method call \<^verbatim>\<open>searchQuery.toString()\<close>. Booleans, numbers and strings answer with
  their text. An array joins the texts of its elements with commas, \<^verbatim>\<open>null\<close> elements
  counting as empty. A plain object answers \<^verbatim>\<open>[object Object]\<close>, unless it has a property
  of its own named \<^verbatim>\<open>toString\<close>: a JSON value is never a function, so calling it
  throws a \<^verbatim>\<open>TypeError\<close>. (\<^verbatim>\<open>null\<close> has no methods; the handler never gets there.)
\<close>

fun toString :: "json \<Rightarrow> exception + string" where
  "toString JNull = Inl TypeError"
| "toString (JBool b) = Inr (if b then ''true'' else ''false'')"
| "toString (JNum n) = Inr (numberToString n)"
| "toString (JStr s) = Inr s"
| "toString (JArr xs) =
     (case collect (map (\<lambda>x. case x of JNull \<Rightarrow> Inr [] | _ \<Rightarrow> toString x) xs) of
        Inl e \<Rightarrow> Inl e
      | Inr ss \<Rightarrow> Inr (joinStrings ss))"
| "toString (JObj kvs) =
     (if ''toString'' \<in> fst ` set kvs then Inl TypeError else Inr ''[object Object]'')"

section \<open>The server\<close>

text \<open>
  A response is the status code and the JSON envelope; a key the handler does not write is
  \<open>None\<close>.
\<close>

datatype payload = Single vehicle | Multiple "vehicle list"

record response =
  status :: nat
  success :: bool
  count :: "nat option"
  data :: "payload option"
  message :: "string option"
  error :: "exception option"

text \<open>\<^verbatim>\<open>GET /api/vehicles\<close>.\<close>

definition listVehicles :: "backing_file \<Rightarrow> response" where
  "listVehicles file =
     (let vehicles = getVehiclesData file in
      \<lparr>status = 200, success = True, count = Some (length vehicles),
       data = Some (Multiple vehicles), message = None, error = None\<rparr>)"

text \<open>\<^verbatim>\<open>GET /api/vehicles/vrm/:vrm\<close>; the route parameter is always a string.\<close>

definition getVehicleByVRM :: "backing_file \<Rightarrow> string \<Rightarrow> response" where
  "getVehicleByVRM file vrmParam =
     (let vrm = toUpperCase vrmParam;
          vehicles = getVehiclesData file
      in case find (\<lambda>v. toUpperCase (VRM v) = vrm) vehicles of
           Some vehicle \<Rightarrow>
             \<lparr>status = 200, success = True, count = None,
              data = Some (Single vehicle), message = None, error = None\<rparr>
         | None \<Rightarrow>
             \<lparr>status = 404, success = False, count = None,
              data = None, message = Some (''No vehicle found with VRM: '' @ vrm), error = None\<rparr>)"

text \<open>
  The callback of \<^verbatim>\<open>vehicles.filter\<close> in the search handler; \<open>query\<close> is the lower-cased
  text of the request's query. The checks are tried in the order of the source.
\<close>

definition priceInRange :: "string \<Rightarrow> vehicle \<Rightarrow> bool" where
  "priceInRange query vehicle =
     (\<not> isNaN query \<and>
      (case parseInt query of
         None \<Rightarrow> False
       | Some numQuery \<Rightarrow> \<bar>Price vehicle - numQuery\<bar> \<le> 1000))"

definition matchesQuery :: "string \<Rightarrow> vehicle \<Rightarrow> bool" where
  "matchesQuery query vehicle =
     (if includes_str (toLowerCase (VRM vehicle)) query then True
      else if includes_str (toLowerCase (Make vehicle)) query then True
      else if includes_str (toLowerCase (Model vehicle)) query then True
      else if includes_str (toLowerCase (Variant vehicle)) query then True
      else if includes_str (toLowerCase (Colour vehicle)) query then True
      else if includes_str (toLowerCase (BodyType vehicle)) query then True
      else if \<not> isNaN query \<and> Some (Price vehicle) = parseInt query then True
      else if \<not> isNaN query \<and> Some (Mileage vehicle) = parseInt query then True
      else if priceInRange query vehicle then True
      else if includes_str (DateOfRegistration vehicle) query then True
      else False)"

text \<open>Lower-casing the query text and filtering: the search proper.\<close>

definition search :: "string \<Rightarrow> vehicle list \<Rightarrow> vehicle list" where
  "search searchText vehicles =
     (let query = toLowerCase searchText in filter (matchesQuery query) vehicles)"

text \<open>
  \<^verbatim>\<open>POST /api/vehicles/search\<close>. An exception thrown inside the \<^verbatim>\<open>try\<close> block ends in
  the 500 response of the \<^verbatim>\<open>catch\<close> block.
\<close>

definition searchVehicles :: "backing_file \<Rightarrow> json option \<Rightarrow> response" where
  "searchVehicles file searchQuery =
     (if \<not> truthy searchQuery then
        \<lparr>status = 400, success = False, count = None,
         data = None, message = Some ''Search query is required'', error = None\<rparr>
      else
        let vehicles = getVehiclesData file in
        case (case searchQuery of Some q \<Rightarrow> toString q | None \<Rightarrow> Inl TypeError) of
          Inl e \<Rightarrow>
            \<lparr>status = 500, success = False, count = None,
             data = None, message = Some ''Error searching vehicles'', error = Some e\<rparr>
        | Inr searchText \<Rightarrow>
            let matchingVehicles = search searchText vehicles in
            if length matchingVehicles > 0 then
              \<lparr>status = 200, success = True, count = Some (length matchingVehicles),
               data = Some (Multiple matchingVehicles), message = None, error = None\<rparr>
            else
              \<lparr>status = 404, success = False, count = None,
               data = Some (Multiple []),
               message = Some (''No vehicles found matching: '' @ [CHR 0x22] @ searchText @ [CHR 0x22]),
               error = None\<rparr>)"

section \<open>The home page\<close>

text \<open>
  The state of \<^verbatim>\<open>HomePage\<close> and its \<^verbatim>\<open>handleSearch\<close>. The request is the parameter
  \<open>post\<close>: it answers with the parsed envelope, or with \<open>None\<close> when \<^verbatim>\<open>fetch\<close> or
  \<^verbatim>\<open>response.json()\<close> throws. The state after \<^verbatim>\<open>finally\<close> is returned.
\<close>

record home_state =
  vehicles :: "payload option"
  loading :: bool
  errorText :: string
  noResultsMessage :: string

definition handleSearch ::
  "(json option \<Rightarrow> response option) \<Rightarrow> string \<Rightarrow> home_state \<Rightarrow> home_state" where
  "handleSearch post searchQuery st =
     (if searchQuery = [] \<or> trim searchQuery = [] then
        st\<lparr>errorText := ''Please enter a search term'',
           vehicles := Some (Multiple []),
           noResultsMessage := []\<rparr>
      else
        let st1 = st\<lparr>loading := True, errorText := [], noResultsMessage := [],
                     vehicles := Some (Multiple [])\<rparr>;
            failed = ''Failed to search vehicles. Please ensure the backend server is running on port 5000.''
        in case post (Some (JStr searchQuery)) of
             None \<Rightarrow> st1\<lparr>errorText := failed, loading := False\<rparr>
           | Some d \<Rightarrow>
               if success d then
                 (case data d of
                    Some (Multiple vs) \<Rightarrow>
                      st1\<lparr>vehicles := Some (Multiple vs),
                          noResultsMessage :=
                            (if length vs = 0
                             then ''No vehicles found matching: '' @ [CHR 0x22] @ searchQuery @ [CHR 0x22]
                             else []),
                          loading := False\<rparr>
                  | Some (Single v) \<Rightarrow> st1\<lparr>vehicles := Some (Single v), loading := False\<rparr>
                  | None \<Rightarrow> st1\<lparr>vehicles := None, errorText := failed, loading := False\<rparr>)
               else
                 st1\<lparr>noResultsMessage :=
                       (case message d of
                          Some m \<Rightarrow> if m = [] then ''No vehicles found'' else m
                        | None \<Rightarrow> ''No vehicles found''),
                     loading := False\<rparr>)"

section \<open>Notions of the specification\<close>

text \<open>
  The definitions of this section follow the words of the specification, not the code.
  Two code units are the same letter up to case when they are equal or one is an upper-case
  letter and the other its lower-case form; two strings are equal up to case when they are so
  position by position; a field contains a query case-insensitively when some stretch of the
  field equals the query up to case.
\<close>

definition sameLetterIgnoringCase :: "char \<Rightarrow> char \<Rightarrow> bool" where
  "sameLetterIgnoringCase x y \<longleftrightarrow>
     x = y \<or>
     (isUpperCase x \<and> (of_char y :: nat) = of_char x + 32) \<or>
     (isUpperCase y \<and> (of_char x :: nat) = of_char y + 32)"

definition equalIgnoringCase :: "string \<Rightarrow> string \<Rightarrow> bool" where
  "equalIgnoringCase a b \<longleftrightarrow> list_all2 sameLetterIgnoringCase a b"

fun startsWithIgnoringCase :: "string \<Rightarrow> string \<Rightarrow> bool" where
  "startsWithIgnoringCase s [] = True"
| "startsWithIgnoringCase [] (y # q) = False"
| "startsWithIgnoringCase (x # s) (y # q) \<longleftrightarrow> sameLetterIgnoringCase x y \<and> startsWithIgnoringCase s q"

fun containsIgnoringCase :: "string \<Rightarrow> string \<Rightarrow> bool" where
  "containsIgnoringCase [] q = (q = [])"
| "containsIgnoringCase (c # cs) q = (startsWithIgnoringCase (c # cs) q \<or> containsIgnoringCase cs q)"

text \<open>
  A query parses as an integer when it is a run of decimal digits with an optional sign in
  front; the integer is its decimal value.
\<close>

definition decimalValue :: "string \<Rightarrow> int" where
  "decimalValue ds = foldl (\<lambda>a c. 10 * a + (of_char c - 48)) 0 ds"

definition parsesAsInteger :: "string \<Rightarrow> int option" where
  "parsesAsInteger q =
     (case q of
        [] \<Rightarrow> None
      | c # ds \<Rightarrow>
          if c = CHR ''-'' then (if decimalDigits ds then Some (- decimalValue ds) else None)
          else if c = CHR ''+'' then (if decimalDigits ds then Some (decimalValue ds) else None)
          else if decimalDigits q then Some (decimalValue q) else None)"

text \<open>
  The three numeric grounds for an integer \<open>n\<close>: exact price, exact mileage, price within
  1000 of \<open>n\<close>; the six case-insensitive text grounds; and the ten grounds together, as
  the specification lists them (\<open>specMatch\<close>) and with the numeric grounds as the code
  decides them (\<open>amendedMatch\<close>: they are gated by \<^verbatim>\<open>Number\<close> and read with
  \<^verbatim>\<open>parseInt\<close> from the lower-cased query).
\<close>

definition numericMatch :: "int \<Rightarrow> vehicle \<Rightarrow> bool" where
  "numericMatch n v \<longleftrightarrow> Price v = n \<or> Mileage v = n \<or> \<bar>Price v - n\<bar> \<le> 1000"

definition textMatch :: "string \<Rightarrow> vehicle \<Rightarrow> bool" where
  "textMatch q v \<longleftrightarrow>
     containsIgnoringCase (VRM v) q \<or> containsIgnoringCase (Make v) q \<or>
     containsIgnoringCase (Model v) q \<or> containsIgnoringCase (Variant v) q \<or>
     containsIgnoringCase (Colour v) q \<or> containsIgnoringCase (BodyType v) q"

definition specMatch :: "string \<Rightarrow> vehicle \<Rightarrow> bool" where
  "specMatch q v \<longleftrightarrow>
     textMatch q v \<or>
     (case parsesAsInteger q of Some n \<Rightarrow> numericMatch n v | None \<Rightarrow> False) \<or>
     containsIgnoringCase (DateOfRegistration v) q"



text \<open>
  A request value shadows \<^verbatim>\<open>toString\<close> when it is an object with a property of its own
  of that name, or an array with such an element (at any depth of arrays).
\<close>

fun shadowsToString :: "json \<Rightarrow> bool" where
  "shadowsToString (JObj kvs) = (''toString'' \<in> fst ` set kvs)"
| "shadowsToString (JArr xs) = list_ex shadowsToString xs"
| "shadowsToString JNull = False"
| "shadowsToString (JBool b) = False"
| "shadowsToString (JNum n) = False"
| "shadowsToString (JStr s) = False"

text \<open>The client-error response of the search handler.\<close>

definition badRequest :: response where
  "badRequest = \<lparr>status = 400, success = False, count = None, data = None,
                  message = Some ''Search query is required'', error = None\<rparr>"

section \<open>Sample data\<close>

text \<open>Vehicles in the shape of the records of \<^verbatim>\<open>data.json\<close>, for concrete runs.\<close>

definition golf :: vehicle where
  "golf = \<lparr>VRM = ''AB12CDE'', Make = ''Volkswagen'', Model = ''Golf'', Variant = ''1.5 TSI EVO'',
           Colour = ''Blue'', BodyType = ''Hatchback'', Price = 12995, Mileage = 30000,
           DateOfRegistration = ''2018-03-14''\<rparr>"

definition fiesta :: vehicle where
  "fiesta = \<lparr>VRM = ''XY09ZZZ'', Make = ''Ford'', Model = ''Fiesta'', Variant = ''Zetec'',
             Colour = ''Red'', BodyType = ''Hatchback'', Price = 1000, Mileage = 98000,
             DateOfRegistration = ''2009-09-01''\<rparr>"

definition golfStamped :: vehicle where
  "golfStamped = golf\<lparr>DateOfRegistration := ''2018-03-14T09:30:00Z''\<rparr>"

definition sampleFile :: backing_file where
  "sampleFile = Readable (Document [golf, fiesta])"

section \<open>Letter case\<close>

lemma code_lowerChar:
  "(of_char (lowerChar c) :: nat) = (if isUpperCase c then of_char c + 32 else of_char c)"
  by (simp add: lowerChar_def isUpperCase_def)

lemma code_upperChar:
  "(of_char (upperChar c) :: nat) = (if isLowerCase c then of_char c - 32 else of_char c)"
proof -
  have "(of_char c :: nat) < 256"
    by (metis of_char_mod_256 mod_less_divisor zero_less_numeral)
  then have "(of_char c - 32 :: nat) < 256"
    by (rule less_imp_diff_less)
  then have "(of_char c - 32 :: nat) mod 256 = of_char c - 32"
    by (rule mod_less)
  then show ?thesis
    by (simp add: upperChar_def isLowerCase_def)
qed

lemma char_eq_code: "x = y \<longleftrightarrow> (of_char x :: nat) = of_char y"
  by simp

lemma sameLetter_lower: "sameLetterIgnoringCase x y \<longleftrightarrow> lowerChar x = lowerChar y"
proof -
  have "(a = b \<or> (65 \<le> a \<and> a \<le> 90 \<and> b = a + 32) \<or> (65 \<le> b \<and> b \<le> 90 \<and> a = b + 32)) \<longleftrightarrow>
        (if 65 \<le> a \<and> a \<le> 90 then a + 32 else a) = (if 65 \<le> b \<and> b \<le> 90 then b + 32 else b)"
    for a b :: nat
    by auto
  then show ?thesis
    unfolding sameLetterIgnoringCase_def char_eq_code[of "lowerChar x"] char_eq_code[of x y]
      code_lowerChar isUpperCase_def
    by blast
qed

lemma sameLetter_upper: "sameLetterIgnoringCase x y \<longleftrightarrow> upperChar x = upperChar y"
proof -
  have "(a = b \<or> (65 \<le> a \<and> a \<le> 90 \<and> b = a + 32) \<or> (65 \<le> b \<and> b \<le> 90 \<and> a = b + 32)) \<longleftrightarrow>
        (if 97 \<le> a \<and> a \<le> 122 then a - 32 else a) = (if 97 \<le> b \<and> b \<le> 122 then b - 32 else b)"
    for a b :: nat
    by auto
  then show ?thesis
    unfolding sameLetterIgnoringCase_def char_eq_code[of "upperChar x"] char_eq_code[of x y]
      code_upperChar isUpperCase_def isLowerCase_def
    by blast
qed

lemma equalIgnoringCase_lower: "equalIgnoringCase a b \<longleftrightarrow> toLowerCase a = toLowerCase b"
proof -
  have "toLowerCase a = toLowerCase b \<longleftrightarrow> list_all2 (=) (map lowerChar a) (map lowerChar b)"
    by (simp add: toLowerCase_def list.rel_eq)
  also have "\<dots> \<longleftrightarrow> list_all2 (\<lambda>x y. lowerChar x = lowerChar y) a b"
    by (simp add: list_all2_map1 list_all2_map2)
  also have "(\<lambda>x y. lowerChar x = lowerChar y) = sameLetterIgnoringCase"
    by (intro ext) (simp add: sameLetter_lower)
  finally show ?thesis
    by (simp add: equalIgnoringCase_def)
qed

lemma equalIgnoringCase_upper: "equalIgnoringCase a b \<longleftrightarrow> toUpperCase a = toUpperCase b"
proof -
  have "toUpperCase a = toUpperCase b \<longleftrightarrow> list_all2 (=) (map upperChar a) (map upperChar b)"
    by (simp add: toUpperCase_def list.rel_eq)
  also have "\<dots> \<longleftrightarrow> list_all2 (\<lambda>x y. upperChar x = upperChar y) a b"
    by (simp add: list_all2_map1 list_all2_map2)
  also have "(\<lambda>x y. upperChar x = upperChar y) = sameLetterIgnoringCase"
    by (intro ext) (simp add: sameLetter_upper)
  finally show ?thesis
    by (simp add: equalIgnoringCase_def)
qed







section \<open>Listing and loading\<close>

text \<open>
  Claim C8. Whatever the backing file holds, the list-all response is a success whose
  \<open>data\<close> is the loaded collection itself, records and order unchanged, and whose
  \<open>count\<close> is the length of that array; for a file with the vehicles \<open>vs\<close> the array is
  \<open>vs\<close>.
\<close>

theorem list_all_complete:
  "status (listVehicles file) = 200 \<and> success (listVehicles file) \<and>
   data (listVehicles file) = Some (Multiple (getVehiclesData file)) \<and>
   count (listVehicles file) = Some (length (getVehiclesData file)) \<and>
   listVehicles (Readable (Document vs)) =
     \<lparr>status = 200, success = True, count = Some (length vs),
      data = Some (Multiple vs), message = None, error = None\<rparr>"
  by (simp add: listVehicles_def Let_def getVehiclesData_def readFileSync_def JSON_parse_def)

theorem list_all_complete_witness:
  "listVehicles sampleFile =
     \<lparr>status = 200, success = True, count = Some 2,
      data = Some (Multiple [golf, fiesta]), message = None, error = None\<rparr>"
  using list_all_complete [of sampleFile "[golf, fiesta]"]
  by (simp add: sampleFile_def)

text \<open>
  Claim C7. When reading the backing file fails, or reading succeeds and parsing fails, the
  load operation returns the empty sequence; list-all then still reports success with count
  0, and all three endpoints answer exactly as they do for a file holding zero vehicles.
\<close>

theorem load_failure_is_empty:
  assumes "readFileSync file = Inl e \<or> (\<exists>jsonData. readFileSync file = Inr jsonData \<and> JSON_parse jsonData = Inl e)"
  shows "getVehiclesData file = [] \<and>
         listVehicles file =
           \<lparr>status = 200, success = True, count = Some 0,
            data = Some (Multiple []), message = None, error = None\<rparr> \<and>
         listVehicles file = listVehicles (Readable (Document [])) \<and>
         getVehicleByVRM file vrm = getVehicleByVRM (Readable (Document [])) vrm \<and>
         searchVehicles file searchQuery = searchVehicles (Readable (Document [])) searchQuery"
proof -
  from assms have none: "getVehiclesData file = []"
    by (auto simp: getVehiclesData_def)
  have empty: "getVehiclesData (Readable (Document [])) = []"
    by (simp add: getVehiclesData_def readFileSync_def JSON_parse_def)
  show ?thesis
    by (simp add: none empty listVehicles_def getVehicleByVRM_def searchVehicles_def Let_def)
qed

theorem load_failure_is_empty_witness:
  "readFileSync (Readable Malformed) = Inr Malformed \<and> JSON_parse Malformed = Inl SyntaxError \<and>
   getVehiclesData (Readable Malformed) = [] \<and>
   listVehicles (Readable Malformed) =
     \<lparr>status = 200, success = True, count = Some 0,
      data = Some (Multiple []), message = None, error = None\<rparr>"
proof -
  have h: "readFileSync (Readable Malformed) = Inr Malformed \<and> JSON_parse Malformed = Inl SyntaxError"
    by (simp add: readFileSync_def JSON_parse_def)
  then have "readFileSync (Readable Malformed) = Inl SyntaxError \<or>
     (\<exists>jsonData. readFileSync (Readable Malformed) = Inr jsonData \<and> JSON_parse jsonData = Inl SyntaxError)"
    by blast
  from load_failure_is_empty [OF this] h show ?thesis
    by simp
qed

section \<open>Lookup by registration mark\<close>

text \<open>
  Claim C3. Two requested registration marks that are equal up to letter case get the same
  response from the lookup: the same record, or the same not-found answer.
\<close>

theorem lookup_case_invariant:
  "equalIgnoringCase vrm1 vrm2 \<Longrightarrow> getVehicleByVRM file vrm1 = getVehicleByVRM file vrm2"
  by (simp add: equalIgnoringCase_upper getVehicleByVRM_def Let_def)

theorem lookup_case_invariant_witness:
  "equalIgnoringCase ''ab12cde'' ''AB12CDE'' \<and>
   getVehicleByVRM sampleFile ''ab12cde'' = getVehicleByVRM sampleFile ''AB12CDE''"
proof -
  have h: "equalIgnoringCase ''ab12cde'' ''AB12CDE''"
    by code_simp
  from lookup_case_invariant [OF h] h show ?thesis
    by simp
qed



section \<open>Searching: responses\<close>

lemma equalIgnoringCase_Nil: "equalIgnoringCase a b \<Longrightarrow> a = [] \<longleftrightarrow> b = []"
  by (auto simp: equalIgnoringCase_def)

lemma searchVehicles_text:
  "searchText \<noteq> [] \<Longrightarrow>
   searchVehicles file (Some (JStr searchText)) =
     (if search searchText (getVehiclesData file) \<noteq> [] then
        \<lparr>status = 200, success = True,
         count = Some (length (search searchText (getVehiclesData file))),
         data = Some (Multiple (search searchText (getVehiclesData file))),
         message = None, error = None\<rparr>
      else
        \<lparr>status = 404, success = False, count = None, data = Some (Multiple []),
         message = Some (''No vehicles found matching: '' @ [CHR 0x22] @ searchText @ [CHR 0x22]),
         error = None\<rparr>)"
  by (simp add: searchVehicles_def Let_def)

lemma searchVehicles_accepted:
  "truthy (Some q) \<Longrightarrow> toString q = Inr searchText \<Longrightarrow>
   searchVehicles file (Some q) =
     (if search searchText (getVehiclesData file) \<noteq> [] then
        \<lparr>status = 200, success = True,
         count = Some (length (search searchText (getVehiclesData file))),
         data = Some (Multiple (search searchText (getVehiclesData file))),
         message = None, error = None\<rparr>
      else
        \<lparr>status = 404, success = False, count = None, data = Some (Multiple []),
         message = Some (''No vehicles found matching: '' @ [CHR 0x22] @ searchText @ [CHR 0x22]),
         error = None\<rparr>)"
  by (simp add: searchVehicles_def Let_def)

lemma search_case: "equalIgnoringCase q1 q2 \<Longrightarrow> search q1 vs = search q2 vs"
  by (simp add: search_def equalIgnoringCase_lower)

text \<open>
  Claim C2. Two queries that are equal up to letter case (such as \<^verbatim>\<open>bmw\<close> and
  \<^verbatim>\<open>BMW\<close>) select the same vehicles in the same order from every collection, and the
  search endpoint answers them with the same status, success flag, count and data.
\<close>

theorem search_case_invariant:
  assumes "equalIgnoringCase q1 q2"
  shows "search q1 vs = search q2 vs \<and>
         status (searchVehicles file (Some (JStr q1))) = status (searchVehicles file (Some (JStr q2))) \<and>
         success (searchVehicles file (Some (JStr q1))) = success (searchVehicles file (Some (JStr q2))) \<and>
         count (searchVehicles file (Some (JStr q1))) = count (searchVehicles file (Some (JStr q2))) \<and>
         data (searchVehicles file (Some (JStr q1))) = data (searchVehicles file (Some (JStr q2)))"
proof (cases "q1 = []")
  case True
  with assms have "q2 = []"
    using equalIgnoringCase_Nil [of q1 q2] by simp
  with True show ?thesis
    by simp
next
  case False
  with assms have "q2 \<noteq> []"
    using equalIgnoringCase_Nil [of q1 q2] by simp
  with False show ?thesis
    by (simp add: searchVehicles_text search_case [OF assms])
qed

theorem search_case_invariant_witness:
  "equalIgnoringCase ''bmw'' ''BMW'' \<and> search ''bmw'' [golf, fiesta] = search ''BMW'' [golf, fiesta] \<and>
   equalIgnoringCase ''golf'' ''GoLF'' \<and> search ''GoLF'' [golf, fiesta] = [golf]"
proof -
  have h1: "equalIgnoringCase ''bmw'' ''BMW''" and h2: "equalIgnoringCase ''golf'' ''GoLF''"
    by code_simp+
  have e: "search ''golf'' [golf, fiesta] = [golf]"
    by code_simp
  from search_case_invariant [OF h1, of "[golf, fiesta]"] search_case_invariant [OF h2, of "[golf, fiesta]"] h1 h2 e
  show ?thesis
    by simp
qed



section \<open>Validation of the query\<close>

lemma blank_trim: "list_all isWhiteSpace s \<Longrightarrow> trim s = []"
proof -
  assume "list_all isWhiteSpace s"
  then have "trimStart s = []"
    by (simp add: trimStart_def list_all_iff)
  then show ?thesis
    by (simp add: trim_def trimEnd_def)
qed

lemma searchVehicles_falsy: "\<not> truthy searchQuery \<Longrightarrow> searchVehicles file searchQuery = badRequest"
  by (simp add: searchVehicles_def badRequest_def)

lemma searchVehicles_thrown:
  "truthy (Some q) \<Longrightarrow> toString q = Inl e \<Longrightarrow>
   searchVehicles file (Some q) =
     \<lparr>status = 500, success = False, count = None, data = None,
      message = Some ''Error searching vehicles'', error = Some e\<rparr>"
  by (simp add: searchVehicles_def Let_def)

lemma collect_Inr:
  "\<forall>r \<in> set rs. \<exists>s. r = Inr s \<Longrightarrow> \<exists>ss. collect rs = Inr ss"
proof (induction rs)
  case Nil
  show ?case by simp
next
  case (Cons r rs)
  then obtain s ss where "r = Inr s" and "collect rs = Inr ss"
    by auto
  then show ?case by simp
qed

lemma collect_Inl:
  "\<exists>r \<in> set rs. r = Inl TypeError \<Longrightarrow> \<forall>r \<in> set rs. (\<exists>s. r = Inr s) \<or> r = Inl TypeError \<Longrightarrow>
   collect rs = Inl TypeError"
proof (induction rs)
  case Nil
  then show ?case by simp
next
  case (Cons r rs)
  show ?case
  proof (cases r)
    case (Inl e)
    with Cons.prems show ?thesis by auto
  next
    case (Inr s)
    with Cons.prems have "\<exists>r \<in> set rs. r = Inl TypeError"
      and "\<forall>r \<in> set rs. (\<exists>s. r = Inr s) \<or> r = Inl TypeError"
      by auto
    then have "collect rs = Inl TypeError"
      by (rule Cons.IH)
    with Inr show ?thesis by simp
  qed
qed

lemma toString_outcome:
  "(shadowsToString j \<longrightarrow> toString j = Inl TypeError) \<and>
   (\<not> shadowsToString j \<and> j \<noteq> JNull \<longrightarrow> (\<exists>s. toString j = Inr s))"
proof (induction j)
  case (JArr xs)
  let ?f = "\<lambda>x. case x of JNull \<Rightarrow> Inr [] | _ \<Rightarrow> toString x"
  have elem: "(shadowsToString x \<longrightarrow> ?f x = Inl TypeError) \<and>
              (\<not> shadowsToString x \<longrightarrow> (\<exists>s. ?f x = Inr s))" if "x \<in> set xs" for x
    using JArr [OF that] by (cases x) auto
  show ?case
  proof (cases "shadowsToString (JArr xs)")
    case True
    then obtain x where "x \<in> set xs" and "shadowsToString x"
      by (auto simp: list_ex_iff)
    with elem have "x \<in> set xs" and "?f x = Inl TypeError"
      by auto
    then have "x \<in> set xs" and "Inl TypeError = ?f x"
      by simp_all
    then have "Inl TypeError \<in> ?f ` set xs"
      by (intro image_eqI)
    then have "\<exists>r \<in> set (map ?f xs). r = Inl TypeError"
      by simp
    moreover have "\<forall>r \<in> set (map ?f xs). (\<exists>s. r = Inr s) \<or> r = Inl TypeError"
      using elem by auto
    ultimately have "collect (map ?f xs) = Inl TypeError"
      by (rule collect_Inl)
    with True show ?thesis by simp
  next
    case False
    then have "\<forall>r \<in> set (map ?f xs). \<exists>s. r = Inr s"
      using elem by (auto simp: list_ex_iff)
    then obtain ss where "collect (map ?f xs) = Inr ss"
      using collect_Inr by blast
    with False show ?thesis by simp
  qed
qed simp_all

text \<open>
  Claim C10, as amended. The search endpoint decides on the truthiness of the query value:
  every falsy value (absent, \<^verbatim>\<open>null\<close>, \<^verbatim>\<open>false\<close>, the number 0, the empty string) gets
  the 400 response, the number 0 included. Every truthy value that does not shadow
  \<^verbatim>\<open>toString\<close> is accepted and its string form is what the filter sees: so every
  non-zero number, with its decimal text, and \<^verbatim>\<open>true\<close>. A truthy value that shadows
  \<^verbatim>\<open>toString\<close> is answered with the 500 response.
\<close>

theorem query_truthiness:
  "(\<not> truthy searchQuery \<longrightarrow> searchVehicles file searchQuery = badRequest) \<and>
   \<not> truthy None \<and> \<not> truthy (Some JNull) \<and> \<not> truthy (Some (JBool False)) \<and>
   \<not> truthy (Some (JNum 0)) \<and> \<not> truthy (Some (JStr [])) \<and>
   searchVehicles file (Some (JNum 0)) = badRequest \<and>
   (truthy (Some q) \<and> \<not> shadowsToString q \<longrightarrow>
      (\<exists>searchText. toString q = Inr searchText \<and>
         searchVehicles file (Some q) =
           (if search searchText (getVehiclesData file) \<noteq> [] then
              \<lparr>status = 200, success = True,
               count = Some (length (search searchText (getVehiclesData file))),
               data = Some (Multiple (search searchText (getVehiclesData file))),
               message = None, error = None\<rparr>
            else
              \<lparr>status = 404, success = False, count = None, data = Some (Multiple []),
               message = Some (''No vehicles found matching: '' @ [CHR 0x22] @ searchText @ [CHR 0x22]),
               error = None\<rparr>))) \<and>
   (n \<noteq> 0 \<longrightarrow> truthy (Some (JNum n)) \<and> toString (JNum n) = Inr (numberToString n)) \<and>
   truthy (Some (JBool True)) \<and> toString (JBool True) = Inr ''true'' \<and>
   (shadowsToString q \<longrightarrow>
      searchVehicles file (Some q) =
        \<lparr>status = 500, success = False, count = None, data = None,
         message = Some ''Error searching vehicles'', error = Some TypeError\<rparr>)"
proof -
  have accepted: "\<exists>searchText. toString q = Inr searchText \<and>
         searchVehicles file (Some q) =
           (if search searchText (getVehiclesData file) \<noteq> [] then
              \<lparr>status = 200, success = True,
               count = Some (length (search searchText (getVehiclesData file))),
               data = Some (Multiple (search searchText (getVehiclesData file))),
               message = None, error = None\<rparr>
            else
              \<lparr>status = 404, success = False, count = None, data = Some (Multiple []),
               message = Some (''No vehicles found matching: '' @ [CHR 0x22] @ searchText @ [CHR 0x22]),
               error = None\<rparr>)"
    if "truthy (Some q)" and "\<not> shadowsToString q"
  proof -
    from that have "q \<noteq> JNull" by auto
    with that toString_outcome [of q] obtain searchText where "toString q = Inr searchText"
      by blast
    with that(1) searchVehicles_accepted [of q searchText "file"] show ?thesis
      by blast
  qed
  have thrown: "searchVehicles file (Some q) =
        \<lparr>status = 500, success = False, count = None, data = None,
         message = Some ''Error searching vehicles'', error = Some TypeError\<rparr>"
    if "shadowsToString q"
  proof -
    from that have "truthy (Some q)" by (cases q) auto
    moreover from that toString_outcome [of q] have "toString q = Inl TypeError" by blast
    ultimately show ?thesis by (rule searchVehicles_thrown)
  qed
  show ?thesis
    using accepted thrown by (simp add: searchVehicles_falsy)
qed

theorem query_truthiness_witness:
  "searchVehicles sampleFile (Some (JNum 0)) = badRequest \<and>
   truthy (Some (JNum 12000)) \<and> toString (JNum 12000) = Inr ''12000'' \<and>
   searchVehicles sampleFile (Some (JNum 12000)) =
     \<lparr>status = 200, success = True, count = Some 1, data = Some (Multiple [golf]),
      message = None, error = None\<rparr>"
proof -
  have h: "truthy (Some (JNum 12000)) \<and> \<not> shadowsToString (JNum 12000)"
    by simp
  have t: "toString (JNum 12000) = Inr ''12000''"
    by code_simp
  have s: "search ''12000'' (getVehiclesData sampleFile) = [golf]"
    by code_simp
  from query_truthiness [of "Some (JNum 0)" sampleFile "JNum 12000" 12000] h t s
  show ?thesis
    by simp
qed

text \<open>
  Claim C10 as first stated (every truthy non-string value is accepted and coerced) fails
  for the body \<^verbatim>\<open>{"query": {"toString": 1}}\<close>: the value is truthy, the call of its
  \<^verbatim>\<open>toString\<close> throws, and the handler answers 500.
\<close>

theorem truthy_object_counterexample:
  "truthy (Some (JObj [(''toString'', JNum 1)])) \<and>
   searchVehicles sampleFile (Some (JObj [(''toString'', JNum 1)])) =
     \<lparr>status = 500, success = False, count = None, data = None,
      message = Some ''Error searching vehicles'', error = Some TypeError\<rparr>"
  by (simp add: searchVehicles_def)

text \<open>
  Claim C5, as amended. A search request whose query is missing or empty is rejected with
  the 400 response, whatever the backing file holds, and carries no data. Every non-empty
  string, white space included, passes that check. A query of white space only is stopped
  in the home page instead: \<^verbatim>\<open>handleSearch\<close> sets its error text and clears the
  vehicles without sending a request.
\<close>

theorem blank_query_rejection:
  "(searchQuery = None \<or> searchQuery = Some (JStr []) \<longrightarrow>
      searchVehicles file searchQuery = badRequest) \<and>
   (searchText \<noteq> [] \<longrightarrow> status (searchVehicles file (Some (JStr searchText))) \<noteq> 400) \<and>
   (list_all isWhiteSpace searchText \<longrightarrow>
      handleSearch post searchText st =
        st\<lparr>errorText := ''Please enter a search term'', vehicles := Some (Multiple []),
           noResultsMessage := []\<rparr>)"
  by (auto simp: searchVehicles_falsy searchVehicles_text handleSearch_def blank_trim)

theorem blank_query_rejection_witness:
  "searchVehicles sampleFile (Some (JStr [])) = badRequest \<and>
   status (searchVehicles sampleFile (Some (JStr ''   ''))) \<noteq> 400 \<and>
   list_all isWhiteSpace ''   '' \<and>
   handleSearch (\<lambda>q. Some (searchVehicles sampleFile q)) ''   ''
       \<lparr>vehicles = Some (Multiple [golf]), loading = False, errorText = [], noResultsMessage = []\<rparr> =
     \<lparr>vehicles = Some (Multiple []), loading = False, errorText = ''Please enter a search term'',
      noResultsMessage = []\<rparr>"
proof -
  have h: "list_all isWhiteSpace ''   ''"
    by (simp add: isWhiteSpace_def)
  from blank_query_rejection [of "Some (JStr [])" sampleFile "''   ''"
      "\<lambda>q. Some (searchVehicles sampleFile q)"
      "\<lparr>vehicles = Some (Multiple [golf]), loading = False, errorText = [], noResultsMessage = []\<rparr>"] h
  show ?thesis
    by simp
qed

text \<open>
  Claim C5 as first stated fails at the endpoint for the query of one space: the
  handler filters, and answers 200 with the vehicle whose variant contains a space.
\<close>

theorem whitespace_query_counterexample:
  "list_all isWhiteSpace '' '' \<and>
   searchVehicles sampleFile (Some (JStr '' '')) =
     \<lparr>status = 200, success = True, count = Some 1, data = Some (Multiple [golf]),
      message = None, error = None\<rparr>"
  by code_simp

section \<open>Integer numerals as queries\<close>






















section \<open>The grounds of a match\<close>














text \<open>
  Reading "parses as an integer" as "\<^verbatim>\<open>parseInt\<close> finds an integer" does not fit the code
  either: \<^verbatim>\<open>12abc\<close> has the integer prefix 12, within 1000 of the price 1000, but
  \<^verbatim>\<open>Number\<close> rejects it, so no numeric ground is tried and nothing is found.
\<close>

lemma prefix_integer_not_numeric:
  "parseInt ''12abc'' = Some 12 \<and> isNaN ''12abc'' \<and> search ''12abc'' [golf, fiesta] = []"
  by code_simp

text \<open>
  The date of registration is the one text field that the filter does not lower-case. For
  a date written as a timestamp, the query \<^verbatim>\<open>T09\<close> is contained in it up to case, and
  is not found.
\<close>

lemma date_case_sensitive:
  "containsIgnoringCase (DateOfRegistration golfStamped) ''T09'' \<and>
   specMatch ''T09'' golfStamped \<and> search ''T09'' [golfStamped] = []"
  by code_simp

section \<open>The price range\<close>










end
